theory Spec2Isabelle
  imports Complex_Main
begin

section \<open>The MQTT to WebSocket bridge of backend/server.js\<close>

text \<open>
  The script is a set of event handlers over the module's state: the counter
  \<open>clientCount\<close>, the set \<open>wss.clients\<close> kept by the WebSocket server, the flag
  \<open>mqttClient.connected\<close> kept by the MQTT client and the closures registered on the
  sockets. Each handler is modelled as a function from the state to the new state, the list
  of external calls it makes (its trace) and, where the JavaScript may throw, an outcome in
  a sum type.
\<close>

subsection \<open>Values\<close>

text \<open>
  JavaScript values that travel through the bridge. An object literal is its list of
  properties in source order.
\<close>

datatype json =
    JNull
  | JBool bool
  | JNum real
  | JStr string
  | JArr "json list"
  | JObj "(string \<times> json) list"

text \<open>
  A string handed to \<open>send\<close> or \<open>res.end\<close>: a literal, or the result of the built-in
  \<open>JSON.stringify\<close>, which is kept symbolic (the serializer belongs to the language, not to
  the script).
\<close>

datatype jstext = Plain string | JSON_stringify json

text \<open>What a \<open>throw\<close> carries: the \<open>SyntaxError\<close> of \<open>JSON.parse\<close>, or any other \<open>Error\<close>.\<close>

datatype exn = SyntaxError string | Error string

text \<open>The \<open>readyState\<close> constants of a WebSocket (0 to 3).\<close>

datatype readyState = CONNECTING | OPEN | CLOSING | CLOSED

text \<open>
  A member of \<open>wss.clients\<close>: \<open>sock\<close> stands for the identity of the JavaScript object.
\<close>

record websocket =
  sock :: nat
  readyState :: readyState

record request =
  http_method :: string
  url :: string

record response =
  statusCode :: nat
  headers :: "(string \<times> string) list"
  body :: jstext

subsection \<open>The environment\<close>

text \<open>
  What the script calls but does not define: \<open>JSON.parse\<close> (a thrown \<open>SyntaxError\<close> is
  \<open>Inl\<close>), \<open>Date.now()\<close>, the \<open>send\<close> method of a socket (\<open>Some e\<close> when the call throws
  \<open>e\<close>) and the error argument of a \<open>subscribe\<close> callback.
\<close>

record env =
  JSON_parse :: "string \<Rightarrow> exn + json"
  Date_now :: nat
  ws_send :: "websocket \<Rightarrow> jstext \<Rightarrow> exn option"
  subscribe_err :: "string \<Rightarrow> bool"

subsection \<open>Module state\<close>

text \<open>
  \<open>listeners\<close> holds, for each socket on which the connection handler registered its
  closures, the \<open>clientId\<close> those closures captured.
\<close>

record server =
  mqtt_connected :: bool
  wss_clients :: "websocket list"
  clientCount :: nat
  listeners :: "nat \<rightharpoonup> nat"

definition initial :: server where
  "initial = \<lparr>mqtt_connected = False, wss_clients = [], clientCount = 0, listeners = Map.empty\<rparr>"

subsection \<open>Trace of external calls\<close>

text \<open>One constructor per console line of the script, with the values it interpolates.\<close>

datatype logmsg =
    MqttConnected
  | Subscribed string
  | MqttError string
  | MqttOffline
  | MqttReconnecting
  | ClientConnected nat string
  | TotalClients nat
  | ClientMessage nat json
  | ErrorParsingClientMessage exn
  | ClientDisconnected nat
  | ClientError nat string
  | BroadcastTo string nat
  | ErrorProcessingTopic string
  | MessageContent string
  | ErrorObject exn
  | UncaughtException exn

datatype effect =
    ConsoleLog logmsg
  | ConsoleError logmsg
  | Subscribe string
  | Stringify json
  | WsSend websocket jstext
  | Respond response

subsection \<open>Configuration (lines 11 to 19)\<close>

definition TEAM_ID :: string where
  "TEAM_ID = ''BACK-BENCHERS''"

definition TOPIC_MOVEMENT :: string where
  "TOPIC_MOVEMENT = ''vision/'' @ TEAM_ID @ ''/movement''"

definition TOPIC_HEARTBEAT :: string where
  "TOPIC_HEARTBEAT = ''vision/'' @ TEAM_ID @ ''/heartbeat''"

definition TOPIC_STATUS :: string where
  "TOPIC_STATUS = ''iot/status/#''"

text \<open>\<open>String.prototype.startsWith\<close>.\<close>

definition startsWith :: "string \<Rightarrow> string \<Rightarrow> bool" where
  "startsWith s p = (take (length p) s = p)"

text \<open>
  A JavaScript number is a double: counting up from 0 by \<open>++\<close> is exact up to \<open>2 ^ 53\<close>,
  and \<open>2 ^ 53 + 1\<close> rounds back to \<open>2 ^ 53\<close>. No larger value is reached from 0.
\<close>

definition js_increment :: "nat \<Rightarrow> nat" where
  "js_increment n = (if n < 2 ^ 53 then n + 1 else n)"

subsection \<open>The MQTT message handler (lines 126 to 179)\<close>

text \<open>
  Lines 134 to 153: the topic decides \<open>messageType\<close> and \<open>payload\<close>; the two JSON topics
  call \<open>JSON.parse\<close>, whose exception leaves the \<open>try\<close> block.
\<close>

definition route :: "env \<Rightarrow> string \<Rightarrow> string \<Rightarrow> exn + (string \<times> json)" where
  "route e topic msgString =
     (if topic = TOPIC_MOVEMENT then
        (case JSON_parse e msgString of
           Inl err \<Rightarrow> Inl err
         | Inr payload \<Rightarrow> Inr (''movement'', payload))
      else if topic = TOPIC_HEARTBEAT then
        (case JSON_parse e msgString of
           Inl err \<Rightarrow> Inl err
         | Inr payload \<Rightarrow> Inr (''heartbeat'', payload))
      else if startsWith topic ''iot/status/'' then
        Inr (''device_status'', JObj [(''status'', JStr msgString)])
      else
        Inr (''unknown'', JObj [(''raw'', JStr msgString)]))"

text \<open>Lines 155 to 160: the object literal \<open>wsMessage\<close>.\<close>

definition wsMessage :: "env \<Rightarrow> string \<Rightarrow> string \<Rightarrow> json \<Rightarrow> json" where
  "wsMessage e messageType topic payload =
     JObj [(''type'', JStr messageType),
           (''topic'', JStr topic),
           (''data'', payload),
           (''received_at'', JNum (real (Date_now e)))]"

text \<open>Lines 134 to 160 together: the envelope built for one inbound message.\<close>

definition classify :: "env \<Rightarrow> string \<Rightarrow> string \<Rightarrow> exn + json" where
  "classify e topic msgString =
     (case route e topic msgString of
        Inl err \<Rightarrow> Inl err
      | Inr (messageType, payload) \<Rightarrow> Inr (wsMessage e messageType topic payload))"

text \<open>
  Lines 162 to 168: \<open>wss.clients.forEach\<close> in insertion order, threading \<open>sentCount\<close>. The
  argument of \<open>send\<close> is evaluated inside the callback, once per open client; a \<open>send\<close> that
  throws ends the iteration. \<open>sentCount\<close> counts members of one \<open>Set\<close>, whose size the engine
  keeps far below \<open>2 ^ 53\<close>, so its \<open>++\<close> is exact.
\<close>

fun forEach_client :: "env \<Rightarrow> json \<Rightarrow> websocket list \<Rightarrow> nat \<Rightarrow> effect list \<times> (exn + nat)" where
  "forEach_client e msg [] sentCount = ([], Inr sentCount)"
| "forEach_client e msg (client # rest) sentCount =
     (if readyState client = OPEN then
        (case ws_send e client (JSON_stringify msg) of
           Some err \<Rightarrow> ([Stringify msg, WsSend client (JSON_stringify msg)], Inl err)
         | None \<Rightarrow>
             (case forEach_client e msg rest (sentCount + 1) of
                (tr, r) \<Rightarrow> ([Stringify msg, WsSend client (JSON_stringify msg)] @ tr, r)))
      else forEach_client e msg rest sentCount)"

text \<open>Lines 162 to 172: the loop and the log line that follows it.\<close>

definition broadcast :: "env \<Rightarrow> server \<Rightarrow> string \<Rightarrow> json \<Rightarrow> effect list \<times> (exn + unit)" where
  "broadcast e s messageType msg =
     (case forEach_client e msg (wss_clients s) 0 of
        (tr, Inl err) \<Rightarrow> (tr, Inl err)
      | (tr, Inr sentCount) \<Rightarrow>
          (tr @ (if sentCount > 0 then [ConsoleLog (BroadcastTo messageType sentCount)] else []),
           Inr ()))"

text \<open>Lines 131 to 173: the body of the \<open>try\<close> block.\<close>

definition try_block :: "env \<Rightarrow> server \<Rightarrow> string \<Rightarrow> string \<Rightarrow> effect list \<times> (exn + unit)" where
  "try_block e s topic msgString =
     (case route e topic msgString of
        Inl err \<Rightarrow> ([], Inl err)
      | Inr (messageType, payload) \<Rightarrow>
          broadcast e s messageType (wsMessage e messageType topic payload))"

text \<open>Lines 126 to 179: the handler, with its \<open>catch\<close>.\<close>

definition on_mqtt_message :: "env \<Rightarrow> server \<Rightarrow> string \<Rightarrow> string \<Rightarrow> effect list \<times> (exn + unit)" where
  "on_mqtt_message e s topic msgString =
     (case try_block e s topic msgString of
        (tr, Inl err) \<Rightarrow>
          (tr @ [ConsoleError (ErrorProcessingTopic topic),
                 ConsoleError (MessageContent msgString),
                 ConsoleError (ErrorObject err)],
           Inr ())
      | (tr, Inr u) \<Rightarrow> (tr, Inr u))"

subsection \<open>The HTTP request handler (lines 67 to 81)\<close>

text \<open>
  The record is what the callback hands to \<open>res.writeHead\<close> and \<open>res.end\<close>. The script does
  not read \<open>req.method\<close>; for a \<open>GET\<close> request the record is what the client receives, while
  for a \<open>HEAD\<close> request Node sends the status and the headers without the body.
\<close>

definition http_handler :: "env \<Rightarrow> server \<Rightarrow> request \<Rightarrow> response" where
  "http_handler e s req =
     (if url req = ''/health'' then
        \<lparr>statusCode = 200,
         headers = [(''Content-Type'', ''application/json'')],
         body = JSON_stringify (JObj
           [(''status'', JStr ''healthy''),
            (''mqtt'', JBool (mqtt_connected s)),
            (''ws_clients'', JNum (real (length (wss_clients s)))),
            (''timestamp'', JNum (real (Date_now e)))])\<rparr>
      else
        \<lparr>statusCode = 404, headers = [], body = Plain ''Not Found''\<rparr>)"

subsection \<open>The connection handler and the closures it registers (lines 88 to 123)\<close>

text \<open>Lines 98 to 103: the welcome object.\<close>

definition welcome_message :: "env \<Rightarrow> json" where
  "welcome_message e =
     JObj [(''type'', JStr ''welcome''),
           (''message'', JStr ''Connected to Face Tracking Backend''),
           (''team_id'', JStr TEAM_ID),
           (''timestamp'', JNum (real (Date_now e)))]"

text \<open>
  Lines 90 to 123. The handler has no \<open>try\<close>: when the welcome \<open>send\<close> throws, the three
  \<open>ws.on\<close> registrations below it are not reached.
\<close>

definition on_connection ::
  "env \<Rightarrow> server \<Rightarrow> websocket \<Rightarrow> string \<Rightarrow> server \<times> effect list \<times> (exn + unit)" where
  "on_connection e s ws clientIp =
     (let clientId = js_increment (clientCount s);
          s1 = s\<lparr>clientCount := clientId\<rparr>;
          tr = [ConsoleLog (ClientConnected clientId clientIp),
                ConsoleLog (TotalClients (length (wss_clients s1))),
                Stringify (welcome_message e),
                WsSend ws (JSON_stringify (welcome_message e))]
      in case ws_send e ws (JSON_stringify (welcome_message e)) of
           Some err \<Rightarrow> (s1, tr, Inl err)
         | None \<Rightarrow> (s1\<lparr>listeners := (listeners s1)(sock ws \<mapsto> clientId)\<rparr>, tr, Inr ()))"

text \<open>Lines 105 to 113.\<close>

definition on_ws_message :: "env \<Rightarrow> nat \<Rightarrow> string \<Rightarrow> effect list" where
  "on_ws_message e clientId message =
     (case JSON_parse e message of
        Inr d \<Rightarrow> [ConsoleLog (ClientMessage clientId d)]
      | Inl err \<Rightarrow> [ConsoleError (ErrorParsingClientMessage err)])"

text \<open>Lines 115 to 118.\<close>

definition on_ws_close :: "server \<Rightarrow> nat \<Rightarrow> effect list" where
  "on_ws_close s clientId =
     [ConsoleLog (ClientDisconnected clientId),
      ConsoleLog (TotalClients (length (wss_clients s)))]"

text \<open>Lines 120 to 122.\<close>

definition on_ws_error :: "nat \<Rightarrow> string \<Rightarrow> effect list" where
  "on_ws_error clientId message = [ConsoleError (ClientError clientId message)]"

subsection \<open>The MQTT client's other handlers (lines 31 to 64)\<close>

text \<open>
  Lines 31 to 52: the connect handler writes its line and issues the three \<open>subscribe\<close>
  calls. The callback of each call runs later, when the broker has answered, and writes
  its line unless it is given an error.
\<close>

definition on_mqtt_connect :: "effect list" where
  "on_mqtt_connect =
     [ConsoleLog MqttConnected,
      Subscribe TOPIC_MOVEMENT, Subscribe TOPIC_HEARTBEAT, Subscribe TOPIC_STATUS]"

definition on_subscribed :: "env \<Rightarrow> string \<Rightarrow> effect list" where
  "on_subscribed e t = (if \<not> subscribe_err e t then [ConsoleLog (Subscribed t)] else [])"

subsection \<open>The event loop\<close>

text \<open>
  Node runs the handlers one event at a time. The libraries act before the handler they
  call: the WebSocket server adds an accepted socket, open, to \<open>wss.clients\<close> and deletes
  a closed one from it; the MQTT client sets \<open>connected\<close>. \<open>SubscribeCallback\<close> is the
  broker's answer to one \<open>subscribe\<close> call. \<open>WsReadyState\<close> is a change of a
  socket's \<open>readyState\<close> by the library, for which the script has no handler. An exception
  that leaves a handler reaches \<open>process.on('uncaughtException')\<close> (lines 216 to 218). A run
  ends where the termination signal arrives (lines 196 to 213).
\<close>

datatype event =
    MqttConnect
  | SubscribeCallback string
  | MqttErrorEvent string
  | MqttOfflineEvent
  | MqttReconnect
  | MqttMessage string string
  | HttpRequest request
  | Connection nat string
  | WsMessage nat string
  | WsReadyState nat readyState
  | WsClose nat
  | WsError nat string

definition uncaught :: "exn + unit \<Rightarrow> effect list" where
  "uncaught r = (case r of Inl err \<Rightarrow> [ConsoleError (UncaughtException err)] | Inr u \<Rightarrow> [])"

fun step :: "env \<Rightarrow> server \<Rightarrow> event \<Rightarrow> server \<times> effect list" where
  "step e s MqttConnect = (s\<lparr>mqtt_connected := True\<rparr>, on_mqtt_connect)"
| "step e s (SubscribeCallback t) = (s, on_subscribed e t)"
| "step e s (MqttErrorEvent message) = (s, [ConsoleError (MqttError message)])"
| "step e s MqttOfflineEvent = (s\<lparr>mqtt_connected := False\<rparr>, [ConsoleLog MqttOffline])"
| "step e s MqttReconnect = (s, [ConsoleLog MqttReconnecting])"
| "step e s (MqttMessage topic msgString) =
     (case on_mqtt_message e s topic msgString of (tr, r) \<Rightarrow> (s, tr @ uncaught r))"
| "step e s (HttpRequest req) = (s, [Respond (http_handler e s req)])"
| "step e s (Connection k clientIp) =
     (let ws = \<lparr>sock = k, readyState = OPEN\<rparr>;
          s0 = s\<lparr>wss_clients := wss_clients s @ [ws]\<rparr>
      in case on_connection e s0 ws clientIp of (s1, tr, r) \<Rightarrow> (s1, tr @ uncaught r))"
| "step e s (WsMessage k message) =
     (case listeners s k of
        None \<Rightarrow> (s, [])
      | Some clientId \<Rightarrow> (s, on_ws_message e clientId message))"
| "step e s (WsReadyState k rs) =
     (s\<lparr>wss_clients := map (\<lambda>c. if sock c = k then c\<lparr>readyState := rs\<rparr> else c) (wss_clients s)\<rparr>,
      [])"
| "step e s (WsClose k) =
     (let s0 = s\<lparr>wss_clients := filter (\<lambda>c. sock c \<noteq> k) (wss_clients s)\<rparr>
      in case listeners s0 k of
           None \<Rightarrow> (s0, [])
         | Some clientId \<Rightarrow> (s0\<lparr>listeners := (listeners s0)(k := None)\<rparr>, on_ws_close s0 clientId))"
| "step e s (WsError k message) =
     (case listeners s k of
        None \<Rightarrow> (s, [])
      | Some clientId \<Rightarrow> (s, on_ws_error clientId message))"

text \<open>A run: each event comes with the environment at the moment it is handled.\<close>

fun run :: "server \<Rightarrow> (env \<times> event) list \<Rightarrow> server \<times> effect list" where
  "run s [] = (s, [])"
| "run s ((e, ev) # rest) =
     (case step e s ev of
        (s1, tr1) \<Rightarrow> (case run s1 rest of (s2, tr2) \<Rightarrow> (s2, tr1 @ tr2)))"

subsection \<open>Reading a trace\<close>

text \<open>The sockets on which \<open>send\<close> was called, with the text passed, in order.\<close>

fun ws_sends :: "effect list \<Rightarrow> (websocket \<times> jstext) list" where
  "ws_sends [] = []"
| "ws_sends (WsSend c t # tr) = (c, t) # ws_sends tr"
| "ws_sends (x # tr) = ws_sends tr"

text \<open>The arguments of the calls of \<open>JSON.stringify\<close>, in order.\<close>

fun stringify_calls :: "effect list \<Rightarrow> json list" where
  "stringify_calls [] = []"
| "stringify_calls (Stringify j # tr) = j # stringify_calls tr"
| "stringify_calls (x # tr) = stringify_calls tr"

text \<open>The ids announced by the connection handler (line 94), in order.\<close>

fun assigned_ids :: "effect list \<Rightarrow> nat list" where
  "assigned_ids [] = []"
| "assigned_ids (ConsoleLog (ClientConnected i ip) # tr) = i # assigned_ids tr"
| "assigned_ids (x # tr) = assigned_ids tr"

text \<open>The number of \<open>Connection\<close> events of a run.\<close>

fun accepts :: "(env \<times> event) list \<Rightarrow> nat" where
  "accepts [] = 0"
| "accepts ((e, Connection k ip) # rest) = Suc (accepts rest)"
| "accepts (x # rest) = accepts rest"

text \<open>What a client that parses a response body reads in one of its fields.\<close>

fun body_field :: "string \<Rightarrow> jstext \<Rightarrow> json option" where
  "body_field k (JSON_stringify (JObj kvs)) = map_of kvs k"
| "body_field k t = None"

subsection \<open>Vocabulary of the statements\<close>

definition is_open :: "websocket \<Rightarrow> bool" where
  "is_open c = (readyState c = OPEN)"

text \<open>The open members of \<open>wss.clients\<close>, in iteration order.\<close>

definition open_clients :: "server \<Rightarrow> websocket list" where
  "open_clients s = filter is_open (wss_clients s)"

text \<open>The sockets on which a trace calls \<open>send\<close>, in order.\<close>

definition sent_to :: "effect list \<Rightarrow> websocket list" where
  "sent_to tr = map fst (ws_sends tr)"

text \<open>The trace of serializing \<open>msg\<close> for, and sending it to, each socket of a list in turn.\<close>

definition send_calls :: "json \<Rightarrow> websocket list \<Rightarrow> effect list" where
  "send_calls msg cs = concat (map (\<lambda>c. [Stringify msg, WsSend c (JSON_stringify msg)]) cs)"

text \<open>The three lines the \<open>catch\<close> block writes (lines 175 to 177).\<close>

definition catch_lines :: "string \<Rightarrow> string \<Rightarrow> exn \<Rightarrow> effect list" where
  "catch_lines topic msgString err =
     [ConsoleError (ErrorProcessingTopic topic),
      ConsoleError (MessageContent msgString),
      ConsoleError (ErrorObject err)]"

subsection \<open>Concrete inputs\<close>

text \<open>
  An environment in which \<open>JSON.parse\<close> knows the payload of the movement scenario and
  rejects every other text, and in which no \<open>send\<close> throws.
\<close>

definition scenario_env :: env where
  \<open>scenario_env =
     \<lparr>JSON_parse = (\<lambda>s. if s = ''{"x":1,"y":2}''
                         then Inr (JObj [(''x'', JNum 1), (''y'', JNum 2)])
                         else Inl (SyntaxError s)),
      Date_now = 1700000000000,
      ws_send = (\<lambda>c t. None),
      subscribe_err = (\<lambda>t. False)\<rparr>\<close>

text \<open>The same environment, except that \<open>send\<close> on the socket of identity \<open>k\<close> throws.\<close>

definition failing_env :: "nat \<Rightarrow> env" where
  "failing_env k =
     scenario_env\<lparr>ws_send := (\<lambda>c t. if sock c = k then Some (Error ''send failed'') else None)\<rparr>"

definition client :: "nat \<Rightarrow> readyState \<Rightarrow> websocket" where
  "client k rs = \<lparr>sock = k, readyState = rs\<rparr>"

text \<open>The state the server is in after the given events, handled from the initial state.\<close>

definition reached :: "event list \<Rightarrow> server" where
  "reached evs = fst (run initial (map (\<lambda>ev. (scenario_env, ev)) evs))"

definition one_open :: server where
  "one_open = reached [MqttConnect, Connection 1 ''10.0.0.7'']"

definition two_open :: server where
  "two_open = reached [MqttConnect, Connection 1 ''10.0.0.7'', Connection 2 ''10.0.0.8'']"

definition three_open :: server where
  "three_open =
     reached [MqttConnect, Connection 1 ''10.0.0.7'', Connection 2 ''10.0.0.8'',
              Connection 3 ''10.0.0.9'']"

definition offline_three_open :: server where
  "offline_three_open =
     reached [MqttConnect, Connection 1 ''10.0.0.7'', Connection 2 ''10.0.0.8'',
              Connection 3 ''10.0.0.9'', MqttOfflineEvent]"

definition one_closing :: server where
  "one_closing = reached [MqttConnect, Connection 1 ''10.0.0.7'', WsReadyState 1 CLOSING]"

definition open_closing :: server where
  "open_closing =
     reached [MqttConnect, Connection 1 ''10.0.0.7'', Connection 2 ''10.0.0.8'',
              WsReadyState 2 CLOSING]"

definition open_closing_open :: server where
  "open_closing_open =
     reached [MqttConnect, Connection 1 ''10.0.0.7'', Connection 2 ''10.0.0.8'',
              Connection 3 ''10.0.0.9'', WsReadyState 2 CLOSING]"

section \<open>Properties\<close>

subsection \<open>Topics\<close>

lemma topics_not_status:
  "\<not> startsWith TOPIC_MOVEMENT ''iot/status/''" "\<not> startsWith TOPIC_HEARTBEAT ''iot/status/''"
  "TOPIC_MOVEMENT \<noteq> TOPIC_HEARTBEAT"
  by (simp_all add: startsWith_def TOPIC_MOVEMENT_def TOPIC_HEARTBEAT_def TEAM_ID_def)

subsection \<open>The iteration over the clients\<close>

lemma forEach_client_all_ok:
  "(\<And>c. c \<in> set cs \<Longrightarrow> is_open c \<Longrightarrow> ws_send e c (JSON_stringify msg) = None) \<Longrightarrow>
   forEach_client e msg cs n =
     (send_calls msg (filter is_open cs), Inr (n + length (filter is_open cs)))"
  by (induction cs arbitrary: n) (auto simp: send_calls_def is_open_def)

lemma forEach_client_fails:
  "filter is_open cs = pre @ c # post \<Longrightarrow>
   (\<And>p. p \<in> set pre \<Longrightarrow> ws_send e p (JSON_stringify msg) = None) \<Longrightarrow>
   ws_send e c (JSON_stringify msg) = Some err \<Longrightarrow>
   forEach_client e msg cs n = (send_calls msg (pre @ [c]), Inl err)"
proof (induction cs arbitrary: n pre)
  case Nil
  then show ?case by simp
next
  case (Cons a cs)
  show ?case
  proof (cases "is_open a")
    case False
    with Cons show ?thesis by (simp add: is_open_def)
  next
    case True
    show ?thesis
    proof (cases pre)
      case Nil
      with Cons.prems True show ?thesis by (simp add: is_open_def send_calls_def)
    next
      case (Cons p pre')
      with Cons.prems True have a: "a = p" and f: "filter is_open cs = pre' @ c # post" by auto
      have ok: "ws_send e a (JSON_stringify msg) = None" using Cons.prems(2) a Cons by simp
      have "forEach_client e msg cs (n + 1) = (send_calls msg (pre' @ [c]), Inl err)"
        using Cons.IH [OF f _ Cons.prems(3)] Cons.prems(2) Cons by simp
      with ok True a Cons show ?thesis by (simp add: is_open_def send_calls_def)
    qed
  qed
qed

lemma ws_sends_append: "ws_sends (xs @ ys) = ws_sends xs @ ws_sends ys"
  by (induction xs rule: ws_sends.induct) auto

lemma stringify_calls_append: "stringify_calls (xs @ ys) = stringify_calls xs @ stringify_calls ys"
  by (induction xs rule: stringify_calls.induct) auto

lemma assigned_ids_append: "assigned_ids (xs @ ys) = assigned_ids xs @ assigned_ids ys"
  by (induction xs rule: assigned_ids.induct) auto

lemma ws_sends_send_calls: "ws_sends (send_calls msg cs) = map (\<lambda>c. (c, JSON_stringify msg)) cs"
  by (induction cs) (auto simp: send_calls_def)

lemma broadcast_all_ok:
  "(\<And>c. c \<in> set (wss_clients s) \<Longrightarrow> is_open c \<Longrightarrow> ws_send e c (JSON_stringify msg) = None) \<Longrightarrow>
   broadcast e s messageType msg =
     (send_calls msg (filter is_open (wss_clients s)) @
        (if filter is_open (wss_clients s) \<noteq> []
         then [ConsoleLog (BroadcastTo messageType (length (filter is_open (wss_clients s))))]
         else []),
      Inr ())"
  by (simp add: broadcast_def forEach_client_all_ok)

lemma broadcast_fails:
  "filter is_open (wss_clients s) = pre @ c # post \<Longrightarrow>
   (\<And>p. p \<in> set pre \<Longrightarrow> ws_send e p (JSON_stringify msg) = None) \<Longrightarrow>
   ws_send e c (JSON_stringify msg) = Some err \<Longrightarrow>
   broadcast e s messageType msg = (send_calls msg (pre @ [c]), Inl err)"
  by (simp add: broadcast_def forEach_client_fails)

lemma forEach_client_sends:
  "ws_sends (fst (forEach_client e msg cs n)) =
     map (\<lambda>c. (c, JSON_stringify msg))
       (takeWhile (\<lambda>c. ws_send e c (JSON_stringify msg) = None) (filter is_open cs) @
        take 1 (dropWhile (\<lambda>c. ws_send e c (JSON_stringify msg) = None) (filter is_open cs)))"
  by (induction cs arbitrary: n) (auto simp: is_open_def case_prod_beta split: option.splits)

lemma forEach_client_stringify:
  "stringify_calls (fst (forEach_client e msg cs n)) =
     replicate (length (ws_sends (fst (forEach_client e msg cs n)))) msg"
  by (induction cs arbitrary: n) (auto simp: case_prod_beta split: option.splits)

lemma forEach_client_ids: "assigned_ids (fst (forEach_client e msg cs n)) = []"
  by (induction cs arbitrary: n) (auto simp: case_prod_beta split: option.splits)

lemma ws_sends_broadcast:
  "ws_sends (fst (broadcast e s messageType msg)) =
     ws_sends (fst (forEach_client e msg (wss_clients s) 0))"
  by (auto simp: broadcast_def ws_sends_append split: prod.splits sum.splits)

lemma stringify_calls_broadcast:
  "stringify_calls (fst (broadcast e s messageType msg)) =
     stringify_calls (fst (forEach_client e msg (wss_clients s) 0))"
  by (auto simp: broadcast_def stringify_calls_append split: prod.splits sum.splits)

lemma ws_sends_on_mqtt_message:
  "route e topic msgString = Inr (messageType, payload) \<Longrightarrow>
   ws_sends (fst (on_mqtt_message e s topic msgString)) =
     ws_sends (fst (broadcast e s messageType (wsMessage e messageType topic payload)))"
  by (auto simp: on_mqtt_message_def try_block_def ws_sends_append split: prod.splits sum.splits)

lemma sends_carry:
  "snd ` set (ws_sends (fst (forEach_client e msg cs n))) \<subseteq> {JSON_stringify msg}"
  by (auto simp: forEach_client_sends)

lemma sends_carry_handler:
  "route e topic msgString = Inr (messageType, payload) \<Longrightarrow>
   snd ` set (ws_sends (fst (on_mqtt_message e s topic msgString))) \<subseteq>
     {JSON_stringify (wsMessage e messageType topic payload)}"
  using sends_carry [of e "wsMessage e messageType topic payload" "wss_clients s" 0]
  by (simp add: ws_sends_on_mqtt_message ws_sends_broadcast)

lemma on_mqtt_message_route_fails:
  "route e topic msgString = Inl err \<Longrightarrow>
   on_mqtt_message e s topic msgString = (catch_lines topic msgString err, Inr ())"
  by (simp add: on_mqtt_message_def try_block_def catch_lines_def)

lemma length_upto_first_failure:
  "length (takeWhile P xs @ take 1 (dropWhile P xs)) \<le> length xs"
  by (induction xs) auto

lemma set_upto_first_failure:
  "set (takeWhile P xs @ take 1 (dropWhile P xs)) \<subseteq> set xs"
  by (induction xs) auto

lemma upto_first_failure_all: "(\<And>x. x \<in> set xs \<Longrightarrow> P x) \<Longrightarrow> takeWhile P xs @ take 1 (dropWhile P xs) = xs"
  by (induction xs) auto

lemma attempted_broadcast:
  "map fst (ws_sends (fst (broadcast e s messageType msg))) =
     takeWhile (\<lambda>c. ws_send e c (JSON_stringify msg) = None) (filter is_open (wss_clients s)) @
     take 1 (dropWhile (\<lambda>c. ws_send e c (JSON_stringify msg) = None) (filter is_open (wss_clients s)))"
  by (simp add: ws_sends_broadcast forEach_client_sends comp_def)

lemma length_sends_on_mqtt_message:
  "length (ws_sends (fst (on_mqtt_message e s topic msgString))) \<le>
     length (filter is_open (wss_clients s))"
proof (cases "route e topic msgString")
  case (Inl err)
  then show ?thesis by (simp add: on_mqtt_message_route_fails catch_lines_def)
next
  case (Inr p)
  obtain messageType payload where p: "p = (messageType, payload)" by (cases p)
  have "length (ws_sends (fst (on_mqtt_message e s topic msgString))) =
        length (map fst (ws_sends (fst (broadcast e s messageType (wsMessage e messageType topic payload)))))"
    using Inr p by (simp add: ws_sends_on_mqtt_message)
  also have "\<dots> \<le> length (filter is_open (wss_clients s))"
    unfolding attempted_broadcast by (rule length_upto_first_failure)
  finally show ?thesis .
qed

subsection \<open>Runs and the ids they assign\<close>

lemma js_increment_min: "c \<le> 2 ^ 53 \<Longrightarrow> js_increment c = min (c + 1) (2 ^ 53)"
  by (simp add: js_increment_def)

lemma forEach_client_ids_eq: "forEach_client e msg cs n = (tr, r) \<Longrightarrow> assigned_ids tr = []"
  using forEach_client_ids [of e msg cs n] by simp

lemma assigned_ids_on_mqtt_message: "assigned_ids (fst (on_mqtt_message e s topic msgString)) = []"
  by (auto simp: on_mqtt_message_def try_block_def broadcast_def assigned_ids_append
      dest: forEach_client_ids_eq split: prod.splits sum.splits)

lemma assigned_ids_plain:
  "assigned_ids (uncaught r) = []"
  "assigned_ids on_mqtt_connect = []"
  "assigned_ids (on_subscribed e t) = []"
  "assigned_ids (on_ws_message e i message) = []"
  "assigned_ids (on_ws_close s i) = []"
  "assigned_ids (on_ws_error i message) = []"
  by (auto simp: uncaught_def on_mqtt_connect_def on_subscribed_def on_ws_message_def on_ws_close_def
      on_ws_error_def split: sum.splits)

lemma step_ids:
  "assigned_ids (snd (step e s ev)) =
     (case ev of Connection k ip \<Rightarrow> [js_increment (clientCount s)] | _ \<Rightarrow> [])"
  by (cases ev)
     (auto simp: assigned_ids_plain assigned_ids_append assigned_ids_on_mqtt_message
        on_connection_def Let_def case_prod_beta split: option.splits)

lemma step_clientCount:
  "clientCount (fst (step e s ev)) =
     (case ev of Connection k ip \<Rightarrow> js_increment (clientCount s) | _ \<Rightarrow> clientCount s)"
  by (cases ev)
     (auto simp: on_connection_def Let_def case_prod_beta split: option.splits)

lemma accepts_Cons:
  "accepts ((e, ev) # rest) =
     (case ev of Connection k ip \<Rightarrow> Suc (accepts rest) | _ \<Rightarrow> accepts rest)"
  by (cases ev) auto

lemma run_Cons:
  "run s ((e, ev) # rest) =
     (fst (run (fst (step e s ev)) rest), snd (step e s ev) @ snd (run (fst (step e s ev)) rest))"
  by (simp add: case_prod_beta)

lemma map_min_shift:
  "map (\<lambda>i. min (min (c + 1) M + i) M) [1..<Suc n] = map (\<lambda>i. min (c + i) (M::nat)) [Suc 1..<Suc (Suc n)]"
proof -
  have "[Suc 1..<Suc (Suc n)] = map Suc [1..<Suc n]"
    by (simp add: map_Suc_upt)
  then show ?thesis by (auto simp: comp_def)
qed

lemma run_ids_general:
  "clientCount s \<le> 2 ^ 53 \<Longrightarrow>
   assigned_ids (snd (run s evs)) =
     map (\<lambda>i. min (clientCount s + i) (2 ^ 53)) [1..<Suc (accepts evs)]"
proof (induction evs arbitrary: s)
  case Nil
  then show ?case by simp
next
  case (Cons x evs)
  obtain e ev where x: "x = (e, ev)" by (cases x)
  let ?s1 = "fst (step e s ev)"
  show ?case
  proof (cases "\<exists>k ip. ev = Connection k ip")
    case True
    then obtain k ip where Connection: "ev = Connection k ip" by blast
    have c1: "clientCount ?s1 = min (clientCount s + 1) (2 ^ 53)"
      using Cons.prems Connection by (simp only: step_clientCount event.case js_increment_min)
    then have le: "clientCount ?s1 \<le> 2 ^ 53" by simp
    have ih: "assigned_ids (snd (run ?s1 evs)) =
        map (\<lambda>i. min (min (clientCount s + 1) (2 ^ 53) + i) (2 ^ 53)) [1..<Suc (accepts evs)]"
      using Cons.IH [OF le] c1 by simp
    have hd: "assigned_ids (snd (step e s ev)) = [min (clientCount s + 1) (2 ^ 53)]"
      using Cons.prems Connection by (simp only: step_ids event.case js_increment_min)
    have up: "[1..<Suc (Suc (accepts evs))] = 1 # [Suc 1..<Suc (Suc (accepts evs))]"
      by (simp add: upt_conv_Cons)
    have "assigned_ids (snd (run s (x # evs))) =
        min (clientCount s + 1) (2 ^ 53) #
        map (\<lambda>i. min (clientCount s + i) (2 ^ 53)) [Suc 1..<Suc (Suc (accepts evs))]"
      unfolding x run_Cons snd_conv assigned_ids_append hd ih map_min_shift by simp
    also have "\<dots> = map (\<lambda>i. min (clientCount s + i) (2 ^ 53)) [1..<Suc (Suc (accepts evs))]"
      unfolding up by simp
    finally show ?thesis using x Connection by (simp only: accepts_Cons event.case)
  next
    case False
    then have n1: "assigned_ids (snd (step e s ev)) = []"
      and n2: "clientCount ?s1 = clientCount s"
      and n3: "accepts ((e, ev) # evs) = accepts evs"
      unfolding step_ids step_clientCount accepts_Cons by (cases ev; simp)+
    have "assigned_ids (snd (run ?s1 evs)) =
        map (\<lambda>i. min (clientCount s + i) (2 ^ 53)) [1..<Suc (accepts evs)]"
      using Cons.IH [of ?s1] Cons.prems by (simp only: n2)
    then show ?thesis
      unfolding x run_Cons snd_conv assigned_ids_append n1 n3 by (simp only: append_Nil)
  qed
qed

lemma run_clientCount_le: "clientCount s \<le> 2 ^ 53 \<Longrightarrow> clientCount (fst (run s evs)) \<le> 2 ^ 53"
proof (induction evs arbitrary: s)
  case Nil
  then show ?case by simp
next
  case (Cons x evs)
  obtain e ev where x: "x = (e, ev)" by (cases x)
  have "clientCount (fst (step e s ev)) \<le> 2 ^ 53"
    using Cons.prems unfolding step_clientCount by (cases ev) (simp_all add: js_increment_def)
  then show ?case
    unfolding x run_Cons fst_conv by (rule Cons.IH)
qed

lemma accepts_connections: "accepts (map (\<lambda>k. (e, Connection k ip)) ks) = length ks"
  by (induction ks) auto

lemma capped_ids_repeat:
  assumes "0 < M" and "M < n"
  shows "\<not> distinct (map (\<lambda>i. min (0 + i) M) [1..<Suc n])"
proof
  let ?xs = "map (\<lambda>i. min (0 + i) M) [1..<Suc n]"
  assume d: "distinct ?xs"
  have len: "length ?xs = n" by (simp del: upt_Suc)
  have a: "?xs ! (M - 1) = M"
    using assms nth_upt [of 1 "M - 1" "Suc n"] by (simp del: upt_Suc)
  have b: "?xs ! M = M"
    using assms nth_upt [of 1 M "Suc n"] by (simp del: upt_Suc)
  have "M - 1 < length ?xs" "M < length ?xs" "M - 1 \<noteq> M"
    using assms by (simp_all only: len)
  with d have "?xs ! (M - 1) \<noteq> ?xs ! M"
    unfolding distinct_conv_nth by blast
  with a b show False by simp
qed

lemma many_connections_repeat_ids:
  assumes "2 ^ 53 < n"
  shows "\<not> distinct (assigned_ids (snd (run initial (map (\<lambda>k. (e, Connection k ip)) [0..<n]))))"
proof -
  have c0: "clientCount initial = 0" by (simp add: initial_def)
  have "assigned_ids (snd (run initial (map (\<lambda>k. (e, Connection k ip)) [0..<n]))) =
          map (\<lambda>i. min (0 + i) (2 ^ 53)) [1..<Suc n]"
    using run_ids_general [of initial "map (\<lambda>k. (e, Connection k ip)) [0..<n]"]
    by (simp only: c0 accepts_connections length_upt diff_zero)
  moreover have "\<not> distinct (map (\<lambda>i. min (0 + i) ((2::nat) ^ 53)) [1..<Suc n])"
    by (rule capped_ids_repeat) (use assms in simp_all)
  ultimately show ?thesis by (simp only: not_False_eq_True)
qed


subsection \<open>The concrete states\<close>

lemma js_increment_small:
  "js_increment 0 = Suc 0" "js_increment (Suc 0) = 2" "js_increment 2 = 3"
  by (simp_all add: js_increment_def)

lemma reached_states:
  "one_open =
     \<lparr>mqtt_connected = True, wss_clients = [client 1 OPEN], clientCount = 1,
      listeners = [1 \<mapsto> 1]\<rparr>"
  "two_open =
     \<lparr>mqtt_connected = True, wss_clients = [client 1 OPEN, client 2 OPEN], clientCount = 2,
      listeners = [1 \<mapsto> 1, 2 \<mapsto> 2]\<rparr>"
  "three_open =
     \<lparr>mqtt_connected = True, wss_clients = [client 1 OPEN, client 2 OPEN, client 3 OPEN],
      clientCount = 3, listeners = [1 \<mapsto> 1, 2 \<mapsto> 2, 3 \<mapsto> 3]\<rparr>"
  "offline_three_open =
     \<lparr>mqtt_connected = False, wss_clients = [client 1 OPEN, client 2 OPEN, client 3 OPEN],
      clientCount = 3, listeners = [1 \<mapsto> 1, 2 \<mapsto> 2, 3 \<mapsto> 3]\<rparr>"
  "one_closing =
     \<lparr>mqtt_connected = True, wss_clients = [client 1 CLOSING], clientCount = 1,
      listeners = [1 \<mapsto> 1]\<rparr>"
  "open_closing =
     \<lparr>mqtt_connected = True, wss_clients = [client 1 OPEN, client 2 CLOSING], clientCount = 2,
      listeners = [1 \<mapsto> 1, 2 \<mapsto> 2]\<rparr>"
  "open_closing_open =
     \<lparr>mqtt_connected = True, wss_clients = [client 1 OPEN, client 2 CLOSING, client 3 OPEN],
      clientCount = 3, listeners = [1 \<mapsto> 1, 2 \<mapsto> 2, 3 \<mapsto> 3]\<rparr>"
  by (simp_all add: one_open_def two_open_def three_open_def offline_three_open_def
      one_closing_def open_closing_def open_closing_open_def reached_def initial_def
      on_connection_def js_increment_small scenario_env_def client_def Let_def)

subsection \<open>Classification\<close>

text \<open>
  Claim C1. A message on the movement or the heartbeat topic whose payload \<open>JSON.parse\<close>
  accepts yields one envelope, of type \<open>movement\<close> (respectively \<open>heartbeat\<close>), whose
  \<open>data\<close> is the parsed payload; every send the handler makes for the message carries the
  serialization of that envelope.
\<close>

theorem C1_classify_json_topics:
  assumes "topic = TOPIC_MOVEMENT \<or> topic = TOPIC_HEARTBEAT"
    and "JSON_parse e msgString = Inr payload"
  shows "classify e topic msgString =
           Inr (JObj [(''type'', JStr (if topic = TOPIC_MOVEMENT then ''movement'' else ''heartbeat'')),
                      (''topic'', JStr topic),
                      (''data'', payload),
                      (''received_at'', JNum (real (Date_now e)))])
         \<and> snd ` set (ws_sends (fst (on_mqtt_message e s topic msgString))) \<subseteq>
             {JSON_stringify
                (JObj [(''type'', JStr (if topic = TOPIC_MOVEMENT then ''movement'' else ''heartbeat'')),
                       (''topic'', JStr topic),
                       (''data'', payload),
                       (''received_at'', JNum (real (Date_now e)))])}"
proof -
  let ?mt = "if topic = TOPIC_MOVEMENT then ''movement'' else ''heartbeat''"
  have r: "route e topic msgString = Inr (?mt, payload)"
    using assms topics_not_status(3) by (auto simp: route_def)
  have "classify e topic msgString = Inr (wsMessage e ?mt topic payload)"
    using r by (simp add: classify_def)
  moreover note sends_carry_handler [OF r, of s]
  ultimately show ?thesis by (simp add: wsMessage_def)
qed

theorem C1_witness:
  \<open>classify scenario_env ''vision/BACK-BENCHERS/movement'' ''{"x":1,"y":2}'' =
     Inr (JObj [(''type'', JStr ''movement''),
                (''topic'', JStr ''vision/BACK-BENCHERS/movement''),
                (''data'', JObj [(''x'', JNum 1), (''y'', JNum 2)]),
                (''received_at'', JNum 1700000000000)])
   \<and> ws_sends (fst (on_mqtt_message scenario_env two_open
        ''vision/BACK-BENCHERS/movement'' ''{"x":1,"y":2}'')) =
       [(client 1 OPEN, JSON_stringify
           (JObj [(''type'', JStr ''movement''),
                  (''topic'', JStr ''vision/BACK-BENCHERS/movement''),
                  (''data'', JObj [(''x'', JNum 1), (''y'', JNum 2)]),
                  (''received_at'', JNum 1700000000000)])),
        (client 2 OPEN, JSON_stringify
           (JObj [(''type'', JStr ''movement''),
                  (''topic'', JStr ''vision/BACK-BENCHERS/movement''),
                  (''data'', JObj [(''x'', JNum 1), (''y'', JNum 2)]),
                  (''received_at'', JNum 1700000000000)]))]\<close>
  using C1_classify_json_topics [of "''vision/BACK-BENCHERS/movement''" scenario_env
      \<open>''{"x":1,"y":2}''\<close> "JObj [(''x'', JNum 1), (''y'', JNum 2)]" two_open]
  by (simp add: scenario_env_def TOPIC_MOVEMENT_def TEAM_ID_def reached_states client_def
      on_mqtt_message_def try_block_def route_def broadcast_def wsMessage_def)

text \<open>
  Claim C2. A message on the movement or the heartbeat topic whose payload \<open>JSON.parse\<close>
  rejects does not make the handler throw: no envelope is built, the handler writes its
  three error lines, sends nothing to any client and returns normally (the message is
  dropped), and the events that follow are handled as if it had not arrived.
\<close>

theorem C2_malformed_json_dropped:
  assumes "topic = TOPIC_MOVEMENT \<or> topic = TOPIC_HEARTBEAT"
    and "JSON_parse e msgString = Inl err"
  shows "classify e topic msgString = Inl err
         \<and> on_mqtt_message e s topic msgString =
             ([ConsoleError (ErrorProcessingTopic topic),
               ConsoleError (MessageContent msgString),
               ConsoleError (ErrorObject err)], Inr ())
         \<and> ws_sends (fst (on_mqtt_message e s topic msgString)) = []
         \<and> run s ((e, MqttMessage topic msgString) # rest) =
             (fst (run s rest),
              [ConsoleError (ErrorProcessingTopic topic),
               ConsoleError (MessageContent msgString),
               ConsoleError (ErrorObject err)] @ snd (run s rest))"
proof -
  have r: "route e topic msgString = Inl err"
    using assms by (auto simp: route_def)
  have h: "on_mqtt_message e s topic msgString = (catch_lines topic msgString err, Inr ())"
    by (rule on_mqtt_message_route_fails [OF r])
  show ?thesis
    by (simp add: h r classify_def catch_lines_def uncaught_def case_prod_beta)
qed

theorem C2_witness:
  \<open>on_mqtt_message scenario_env one_open ''vision/BACK-BENCHERS/movement'' ''not-json'' =
     ([ConsoleError (ErrorProcessingTopic ''vision/BACK-BENCHERS/movement''),
       ConsoleError (MessageContent ''not-json''),
       ConsoleError (ErrorObject (SyntaxError ''not-json''))], Inr ())
   \<and> ws_sends (snd (run one_open
        [(scenario_env, MqttMessage ''vision/BACK-BENCHERS/movement'' ''not-json''),
         (scenario_env, MqttMessage ''vision/BACK-BENCHERS/movement'' ''{"x":1,"y":2}'')])) =
       [(client 1 OPEN, JSON_stringify
           (JObj [(''type'', JStr ''movement''),
                  (''topic'', JStr ''vision/BACK-BENCHERS/movement''),
                  (''data'', JObj [(''x'', JNum 1), (''y'', JNum 2)]),
                  (''received_at'', JNum 1700000000000)]))]\<close>
  using C2_malformed_json_dropped [of "''vision/BACK-BENCHERS/movement''" scenario_env
      "''not-json''" "SyntaxError ''not-json''" one_open
      \<open>[(scenario_env, MqttMessage ''vision/BACK-BENCHERS/movement'' ''{"x":1,"y":2}'')]\<close>]
  by (simp add: scenario_env_def TOPIC_MOVEMENT_def TEAM_ID_def reached_states client_def
      on_mqtt_message_def try_block_def route_def broadcast_def wsMessage_def uncaught_def)

text \<open>
  Claim C6. A message whose topic starts with \<open>iot/status/\<close> yields an envelope of type
  \<open>device_status\<close> whose \<open>data\<close> is \<open>{status: <payload text>}\<close>, whatever the payload and
  whatever \<open>JSON.parse\<close> would make of it. Such a topic is never the movement or the
  heartbeat topic.
\<close>

theorem C6_classify_device_status:
  assumes "startsWith topic ''iot/status/''"
  shows "classify e topic msgString =
           Inr (JObj [(''type'', JStr ''device_status''),
                      (''topic'', JStr topic),
                      (''data'', JObj [(''status'', JStr msgString)]),
                      (''received_at'', JNum (real (Date_now e)))])
         \<and> snd ` set (ws_sends (fst (on_mqtt_message e s topic msgString))) \<subseteq>
             {JSON_stringify
                (JObj [(''type'', JStr ''device_status''),
                       (''topic'', JStr topic),
                       (''data'', JObj [(''status'', JStr msgString)]),
                       (''received_at'', JNum (real (Date_now e)))])}"
proof -
  have r: "route e topic msgString = Inr (''device_status'', JObj [(''status'', JStr msgString)])"
    using assms topics_not_status(1,2) by (auto simp: route_def)
  have "classify e topic msgString =
          Inr (wsMessage e ''device_status'' topic (JObj [(''status'', JStr msgString)]))"
    using r by (simp add: classify_def)
  moreover note sends_carry_handler [OF r, of s]
  ultimately show ?thesis by (simp add: wsMessage_def)
qed

theorem C6_witness:
  "classify scenario_env ''iot/status/sensor7'' ''OK'' =
     Inr (JObj [(''type'', JStr ''device_status''),
                (''topic'', JStr ''iot/status/sensor7''),
                (''data'', JObj [(''status'', JStr ''OK'')]),
                (''received_at'', JNum 1700000000000)])"
  using C6_classify_device_status [of "''iot/status/sensor7''" scenario_env "''OK''" initial]
  by (simp add: scenario_env_def startsWith_def)

text \<open>
  Claim C7. A message whose topic is neither the movement topic, nor the heartbeat topic,
  nor one that starts with \<open>iot/status/\<close> yields an envelope of type \<open>unknown\<close> whose
  \<open>data\<close> is \<open>{raw: <payload text>}\<close>.
\<close>

theorem C7_classify_unknown:
  assumes "topic \<noteq> TOPIC_MOVEMENT" and "topic \<noteq> TOPIC_HEARTBEAT"
    and "\<not> startsWith topic ''iot/status/''"
  shows "classify e topic msgString =
           Inr (JObj [(''type'', JStr ''unknown''),
                      (''topic'', JStr topic),
                      (''data'', JObj [(''raw'', JStr msgString)]),
                      (''received_at'', JNum (real (Date_now e)))])
         \<and> snd ` set (ws_sends (fst (on_mqtt_message e s topic msgString))) \<subseteq>
             {JSON_stringify
                (JObj [(''type'', JStr ''unknown''),
                       (''topic'', JStr topic),
                       (''data'', JObj [(''raw'', JStr msgString)]),
                       (''received_at'', JNum (real (Date_now e)))])}"
proof -
  have r: "route e topic msgString = Inr (''unknown'', JObj [(''raw'', JStr msgString)])"
    using assms by (simp add: route_def)
  have "classify e topic msgString =
          Inr (wsMessage e ''unknown'' topic (JObj [(''raw'', JStr msgString)]))"
    using r by (simp add: classify_def)
  moreover note sends_carry_handler [OF r, of s]
  ultimately show ?thesis by (simp add: wsMessage_def)
qed

theorem C7_witness:
  "classify scenario_env ''vision/OTHER/movement'' ''hello'' =
     Inr (JObj [(''type'', JStr ''unknown''),
                (''topic'', JStr ''vision/OTHER/movement''),
                (''data'', JObj [(''raw'', JStr ''hello'')]),
                (''received_at'', JNum 1700000000000)])"
  using C7_classify_unknown [of "''vision/OTHER/movement''" scenario_env "''hello''" initial]
  by (simp add: scenario_env_def startsWith_def TOPIC_MOVEMENT_def TOPIC_HEARTBEAT_def TEAM_ID_def)

subsection \<open>Fan-out\<close>

text \<open>
  Claim C3, amended. The script has one \<open>try\<close> around the whole iteration and none around a
  single \<open>send\<close>. When the \<open>send\<close> to an open client throws, the iteration stops there:
  the open clients before it, and the failing one, are the only ones \<open>send\<close> was called
  on; the handler's \<open>catch\<close> writes its three lines (topic, message content, error) and
  the handler returns normally.
\<close>

theorem C3_send_failure_aborts_broadcast:
  assumes "route e topic msgString = Inr (messageType, payload)"
    and "open_clients s = before @ c # after"
    and "\<forall>p \<in> set before. ws_send e p (JSON_stringify (wsMessage e messageType topic payload)) = None"
    and "ws_send e c (JSON_stringify (wsMessage e messageType topic payload)) = Some err"
  shows "on_mqtt_message e s topic msgString =
           (send_calls (wsMessage e messageType topic payload) (before @ [c]) @
            [ConsoleError (ErrorProcessingTopic topic),
             ConsoleError (MessageContent msgString),
             ConsoleError (ErrorObject err)],
            Inr ())
         \<and> sent_to (fst (on_mqtt_message e s topic msgString)) = before @ [c]"
proof -
  let ?m = "wsMessage e messageType topic payload"
  have "broadcast e s messageType ?m = (send_calls ?m (before @ [c]), Inl err)"
    using assms(2,3,4) by (intro broadcast_fails) (auto simp: open_clients_def)
  then have h: "on_mqtt_message e s topic msgString =
           (send_calls ?m (before @ [c]) @ catch_lines topic msgString err, Inr ())"
    using assms(1) by (simp add: on_mqtt_message_def try_block_def catch_lines_def)
  have "sent_to (send_calls ?m (before @ [c]) @ catch_lines topic msgString err) = before @ [c]"
    by (simp add: sent_to_def ws_sends_append ws_sends_send_calls catch_lines_def comp_def)
  with h show ?thesis by (simp add: catch_lines_def)
qed

theorem C3_witness:
  "on_mqtt_message (failing_env 2) three_open ''iot/status/sensor7'' ''OK'' =
     (send_calls (wsMessage (failing_env 2) ''device_status'' ''iot/status/sensor7''
                    (JObj [(''status'', JStr ''OK'')])) [client 1 OPEN, client 2 OPEN] @
      [ConsoleError (ErrorProcessingTopic ''iot/status/sensor7''),
       ConsoleError (MessageContent ''OK''),
       ConsoleError (ErrorObject (Error ''send failed''))],
      Inr ())
   \<and> sent_to (fst (on_mqtt_message (failing_env 2) three_open ''iot/status/sensor7'' ''OK'')) =
       [client 1 OPEN, client 2 OPEN]"
  using C3_send_failure_aborts_broadcast [of "failing_env 2" "''iot/status/sensor7''" "''OK''"
      "''device_status''" "JObj [(''status'', JStr ''OK'')]" three_open
      "[client 1 OPEN]" "client 2 OPEN" "[client 3 OPEN]" "Error ''send failed''"]
  by (simp add: open_clients_def is_open_def client_def reached_states failing_env_def
      scenario_env_def route_def startsWith_def TOPIC_MOVEMENT_def TOPIC_HEARTBEAT_def TEAM_ID_def
      sent_to_def send_calls_def)

text \<open>
  As the specification words it, the statement fails: with two open clients of which the
  first one's \<open>send\<close> throws, the second, open and healthy, is not sent the envelope.
\<close>

theorem C3_counterexample:
  "open_clients two_open = [client 1 OPEN, client 2 OPEN]
   \<and> ws_send (failing_env 1) (client 2 OPEN)
        (JSON_stringify (wsMessage (failing_env 1) ''device_status'' ''iot/status/sensor7''
           (JObj [(''status'', JStr ''OK'')]))) = None
   \<and> sent_to (fst (on_mqtt_message (failing_env 1) two_open ''iot/status/sensor7'' ''OK'')) =
       [client 1 OPEN]"
  by (simp add: open_clients_def sent_to_def is_open_def client_def reached_states failing_env_def
      scenario_env_def on_mqtt_message_def try_block_def route_def broadcast_def startsWith_def
      TOPIC_MOVEMENT_def TOPIC_HEARTBEAT_def TEAM_ID_def wsMessage_def)

text \<open>
  Claim C5, amended. The sockets on which a broadcast calls \<open>send\<close> are the open members of
  \<open>wss.clients\<close>, in order, up to and including the first whose \<open>send\<close> throws; so never
  a socket that is not open, and all the open ones when no \<open>send\<close> throws.
\<close>

theorem C5_sends_only_to_open:
  "sent_to (fst (broadcast e s messageType msg)) =
     takeWhile (\<lambda>c. ws_send e c (JSON_stringify msg) = None) (open_clients s) @
     take 1 (dropWhile (\<lambda>c. ws_send e c (JSON_stringify msg) = None) (open_clients s))
   \<and> set (sent_to (fst (broadcast e s messageType msg))) \<subseteq>
       {c \<in> set (wss_clients s). readyState c = OPEN}
   \<and> ((\<forall>c \<in> set (open_clients s). ws_send e c (JSON_stringify msg) = None) \<longrightarrow>
        sent_to (fst (broadcast e s messageType msg)) = open_clients s)"
proof -
  let ?ok = "\<lambda>c. ws_send e c (JSON_stringify msg) = None"
  let ?opens = "open_clients s"
  have a: "sent_to (fst (broadcast e s messageType msg)) =
             takeWhile ?ok ?opens @ take 1 (dropWhile ?ok ?opens)"
    unfolding sent_to_def open_clients_def by (rule attempted_broadcast)
  have b: "set (takeWhile ?ok ?opens @ take 1 (dropWhile ?ok ?opens)) \<subseteq>
             {c \<in> set (wss_clients s). readyState c = OPEN}"
    using set_upto_first_failure [of ?ok ?opens] by (auto simp: is_open_def open_clients_def)
  have c: "takeWhile ?ok ?opens @ take 1 (dropWhile ?ok ?opens) = ?opens"
    if "\<forall>c \<in> set ?opens. ?ok c"
    using that by (intro upto_first_failure_all) auto
  from a b c show ?thesis by simp
qed

theorem C5_witness:
  "sent_to (fst (broadcast scenario_env open_closing_open ''unknown'' JNull)) =
     [client 1 OPEN, client 3 OPEN]
   \<and> wss_clients open_closing_open = [client 1 OPEN, client 2 CLOSING, client 3 OPEN]"
  using C5_sends_only_to_open [of scenario_env open_closing_open "''unknown''" JNull]
  by (simp add: open_clients_def client_def reached_states scenario_env_def is_open_def)

text \<open>
  With the word \<open>exactly\<close> the statement fails: an open member behind a socket whose
  \<open>send\<close> throws is not attempted.
\<close>

theorem C5_counterexample:
  "readyState (client 2 OPEN) = OPEN
   \<and> client 2 OPEN \<in> set (wss_clients two_open)
   \<and> client 2 OPEN \<notin> set (sent_to (fst (broadcast (failing_env 1) two_open ''unknown'' JNull)))"
  by (simp add: sent_to_def client_def reached_states failing_env_def scenario_env_def
      broadcast_def)

text \<open>
  Claim C8, amended. \<open>JSON.stringify\<close> is called once for each client sent to, inside the
  iteration; every send carries the serialization of the same envelope; when no \<open>send\<close>
  throws, the trace is one serialization and one send per open client, followed by the
  log line with their count if that count is positive.
\<close>

theorem C8_serialized_per_recipient:
  "stringify_calls (fst (broadcast e s messageType msg)) =
     replicate (length (ws_sends (fst (broadcast e s messageType msg)))) msg
   \<and> map snd (ws_sends (fst (broadcast e s messageType msg))) =
       replicate (length (ws_sends (fst (broadcast e s messageType msg)))) (JSON_stringify msg)
   \<and> ((\<forall>c \<in> set (open_clients s). ws_send e c (JSON_stringify msg) = None) \<longrightarrow>
        broadcast e s messageType msg =
          (concat (map (\<lambda>c. [Stringify msg, WsSend c (JSON_stringify msg)]) (open_clients s)) @
           (if open_clients s \<noteq> []
            then [ConsoleLog (BroadcastTo messageType (length (open_clients s)))]
            else []),
           Inr ()))"
proof -
  have a: "stringify_calls (fst (broadcast e s messageType msg)) =
             replicate (length (ws_sends (fst (broadcast e s messageType msg)))) msg"
    by (simp add: stringify_calls_broadcast ws_sends_broadcast forEach_client_stringify)
  have b: "map snd (ws_sends (fst (broadcast e s messageType msg))) =
             replicate (length (ws_sends (fst (broadcast e s messageType msg)))) (JSON_stringify msg)"
    by (simp add: ws_sends_broadcast forEach_client_sends comp_def map_replicate_const replicate_add)
  have c: "broadcast e s messageType msg =
          (concat (map (\<lambda>c. [Stringify msg, WsSend c (JSON_stringify msg)]) (open_clients s)) @
           (if open_clients s \<noteq> []
            then [ConsoleLog (BroadcastTo messageType (length (open_clients s)))]
            else []),
           Inr ())"
    if "\<forall>c \<in> set (open_clients s). ws_send e c (JSON_stringify msg) = None"
    using broadcast_all_ok [of s e msg messageType] that
    by (simp add: open_clients_def send_calls_def)
  from a b c show ?thesis by blast
qed

theorem C8_witness:
  "broadcast scenario_env open_closing_open ''unknown'' JNull =
     ([Stringify JNull, WsSend (client 1 OPEN) (JSON_stringify JNull),
       Stringify JNull, WsSend (client 3 OPEN) (JSON_stringify JNull),
       ConsoleLog (BroadcastTo ''unknown'' 2)], Inr ())"
  using C8_serialized_per_recipient [of scenario_env open_closing_open "''unknown''" JNull]
  by (simp add: open_clients_def is_open_def client_def reached_states scenario_env_def)

text \<open>
  A single serialization ahead of the iteration is not what happens: with two open
  clients the envelope is serialized twice, the second time after the first send, and
  with no open client it is not serialized and no count is logged.
\<close>

theorem C8_counterexample:
  "fst (on_mqtt_message scenario_env two_open ''iot/status/sensor7'' ''OK'') =
     [Stringify (wsMessage scenario_env ''device_status'' ''iot/status/sensor7''
                   (JObj [(''status'', JStr ''OK'')])),
      WsSend (client 1 OPEN)
        (JSON_stringify (wsMessage scenario_env ''device_status'' ''iot/status/sensor7''
                           (JObj [(''status'', JStr ''OK'')]))),
      Stringify (wsMessage scenario_env ''device_status'' ''iot/status/sensor7''
                   (JObj [(''status'', JStr ''OK'')])),
      WsSend (client 2 OPEN)
        (JSON_stringify (wsMessage scenario_env ''device_status'' ''iot/status/sensor7''
                           (JObj [(''status'', JStr ''OK'')]))),
      ConsoleLog (BroadcastTo ''device_status'' 2)]
   \<and> length (stringify_calls
        (fst (on_mqtt_message scenario_env two_open ''iot/status/sensor7'' ''OK''))) = 2
   \<and> fst (on_mqtt_message scenario_env one_closing ''iot/status/sensor7'' ''OK'') = []"
  by (simp add: client_def reached_states scenario_env_def
      on_mqtt_message_def try_block_def route_def broadcast_def startsWith_def
      TOPIC_MOVEMENT_def TOPIC_HEARTBEAT_def TEAM_ID_def wsMessage_def)

subsection \<open>Health\<close>




text \<open>
  Claim C10. The \<open>ws_clients\<close> value of the health response is the size of \<open>wss.clients\<close>,
  whatever the state of its members; a message is sent to open members only, so to no
  more sockets than there are open members; and a state can be reached in which every
  broadcast is sent to fewer sockets than the health response counts.
\<close>

theorem C10_health_counts_registered_broadcast_sends_open:
  "body_field ''ws_clients'' (body (http_handler e s \<lparr>http_method = m, url = ''/health''\<rparr>)) =
     Some (JNum (real (length (wss_clients s))))
   \<and> set (sent_to (fst (on_mqtt_message e s topic msgString))) \<subseteq>
       {c \<in> set (wss_clients s). readyState c = OPEN}
   \<and> length (sent_to (fst (on_mqtt_message e s topic msgString))) \<le> length (open_clients s)
   \<and> (\<exists>evs. \<forall>e' topic' msgString'.
         length (sent_to (fst (on_mqtt_message e' (fst (run initial evs)) topic' msgString'))) <
           length (wss_clients (fst (run initial evs))))"
proof -
  have a: "body_field ''ws_clients'' (body (http_handler e s \<lparr>http_method = m, url = ''/health''\<rparr>)) =
     Some (JNum (real (length (wss_clients s))))"
    by (simp add: http_handler_def)
  have b: "set (sent_to (fst (on_mqtt_message e s topic msgString))) \<subseteq>
       {c \<in> set (wss_clients s). readyState c = OPEN}"
  proof (cases "route e topic msgString")
    case (Inl err)
    then show ?thesis
      by (simp add: on_mqtt_message_route_fails sent_to_def catch_lines_def)
  next
    case (Inr p)
    obtain messageType payload where p: "p = (messageType, payload)" by (cases p)
    let ?m = "wsMessage e messageType topic payload"
    have "sent_to (fst (on_mqtt_message e s topic msgString)) =
            map fst (ws_sends (fst (broadcast e s messageType ?m)))"
      using Inr p by (simp add: sent_to_def ws_sends_on_mqtt_message)
    then show ?thesis
      unfolding attempted_broadcast
      using set_upto_first_failure [of "\<lambda>c. ws_send e c (JSON_stringify ?m) = None"
          "filter is_open (wss_clients s)"]
      by (auto simp: is_open_def)
  qed
  have c: "length (sent_to (fst (on_mqtt_message e s topic msgString))) \<le> length (open_clients s)"
    for e s topic msgString
    using length_sends_on_mqtt_message [of e s topic msgString]
    by (simp add: sent_to_def open_clients_def)
  have d: "length (sent_to (fst (on_mqtt_message e'
             (fst (run initial (map (\<lambda>ev. (scenario_env, ev))
                [MqttConnect, Connection 1 ''10.0.0.7'', Connection 2 ''10.0.0.8'',
                 WsReadyState 2 CLOSING]))) topic' msgString'))) <
           length (wss_clients (fst (run initial (map (\<lambda>ev. (scenario_env, ev))
                [MqttConnect, Connection 1 ''10.0.0.7'', Connection 2 ''10.0.0.8'',
                 WsReadyState 2 CLOSING]))))"
    for e' topic' msgString'
    using c [of e' open_closing topic' msgString']
    unfolding open_closing_def [unfolded reached_def, symmetric]
    by (simp add: reached_states client_def open_clients_def is_open_def)
  from a b c d show ?thesis by blast
qed

theorem C10_witness:
  "wss_clients open_closing = [client 1 OPEN, client 2 CLOSING]
   \<and> body_field ''ws_clients'' (body (http_handler scenario_env open_closing
        \<lparr>http_method = ''GET'', url = ''/health''\<rparr>)) = Some (JNum 2)
   \<and> sent_to (fst (on_mqtt_message scenario_env open_closing ''iot/status/sensor7'' ''OK'')) =
       [client 1 OPEN]"
  using C10_health_counts_registered_broadcast_sends_open [of scenario_env open_closing "''GET''"
      "''iot/status/sensor7''" "''OK''"]
  by (simp add: sent_to_def client_def reached_states scenario_env_def http_handler_def
      on_mqtt_message_def try_block_def route_def broadcast_def startsWith_def
      TOPIC_MOVEMENT_def TOPIC_HEARTBEAT_def TEAM_ID_def wsMessage_def)

subsection \<open>Client ids\<close>

text \<open>
  Claim C9, amended. In a run from the initial state with at most \<open>2 ^ 53\<close> accepted
  connections, whatever else happens in between (closes, messages, requests), the ids
  announced are 1, 2, 3 and so on in the order of the accepts: strictly increasing, so
  none is assigned twice or reused after a close.
\<close>

theorem C9_ids_strictly_increasing:
  assumes "accepts evs \<le> 2 ^ 53"
  shows "assigned_ids (snd (run initial evs)) = [1..<Suc (accepts evs)]
         \<and> sorted_wrt (<) (assigned_ids (snd (run initial evs)))
         \<and> distinct (assigned_ids (snd (run initial evs)))"
proof -
  have c0: "clientCount initial = 0" by (simp add: initial_def)
  have "assigned_ids (snd (run initial evs)) =
          map (\<lambda>i. min (0 + i) (2 ^ 53)) [1..<Suc (accepts evs)]"
    using run_ids_general [of initial evs] by (simp only: c0)
  also have "\<dots> = map (\<lambda>i. i) [1..<Suc (accepts evs)]"
    using assms by (intro map_cong) auto
  finally have "assigned_ids (snd (run initial evs)) = [1..<Suc (accepts evs)]"
    by (simp only: map_ident)
  then show ?thesis by (simp only: sorted_wrt_upt distinct_upt simp_thms)
qed

theorem C9_witness:
  "assigned_ids (snd (run initial
      [(scenario_env, Connection 10 ''10.0.0.7''),
       (scenario_env, Connection 11 ''10.0.0.8''),
       (scenario_env, WsClose 10),
       (scenario_env, MqttMessage ''iot/status/sensor7'' ''OK''),
       (scenario_env, Connection 12 ''10.0.0.7'')])) = [1, 2, 3]"
  using C9_ids_strictly_increasing [of
      "[(scenario_env, Connection 10 ''10.0.0.7''),
        (scenario_env, Connection 11 ''10.0.0.8''),
        (scenario_env, WsClose 10),
        (scenario_env, MqttMessage ''iot/status/sensor7'' ''OK''),
        (scenario_env, Connection 12 ''10.0.0.7'')]"]
  by (simp add: upt_conv_Cons)

text \<open>
  Without the bound the statement fails: \<open>clientCount\<close> is a double, and the accept after
  the \<open>2 ^ 53\<close>-th is given the id \<open>2 ^ 53\<close> again.
\<close>

theorem C9_counterexample:
  "\<not> distinct (assigned_ids (snd (run initial
        (map (\<lambda>k. (scenario_env, Connection k ''10.0.0.7'')) [0..<2 ^ 53 + 1]))))"
  by (rule many_connections_repeat_ids) simp

end
